theory Spec2Isabelle
  imports Complex_Main "HOL-Library.Sublist" "HOL-Library.AList"
begin

section \<open>Jsonary: a file-backed record store with a string query language\<close>

text \<open>
  A shallow embedding of the TypeScript sources \<^verbatim>\<open>Jsonary\<close> (the store),
  \<^verbatim>\<open>QueryBuilder\<close> (the chained query handle) and \<^verbatim>\<open>Constant\<close> (the operator
  table). Conventions of the embedding:

  \<^item> A JavaScript string is the list of its code units. The model covers the strings whose
    code units are below 256, so a string is a \<^typ>\<open>string\<close>.
  \<^item> A JavaScript number is \<open>NaN\<close>, an infinity or a finite value; the program only
    compares numbers, so a finite value is kept as the rational it denotes (\<open>+0\<close> and
    \<open>-0\<close>, which every comparison of the program identifies, are one value).
  \<^item> The runtime conversion \<^verbatim>\<open>Number(s)\<close> of a string is a parameter \<open>toNumber\<close> of
    every definition that reaches it, and every general theorem holds for each such
    conversion. \<open>StringToNumber\<close> below is the conversion used at concrete inputs.
  \<^item> Objects live in a store addressed by references, because the program mutates
    records in place and compares them by identity. An object has a prototype, and a
    property is looked up along the prototype chain. Data properties are writable and
    objects extensible, as the values of a JSON document are. A record is a reference
    to an object, as the type \<^verbatim>\<open>Record<string, unknown>\<close> of the sources has it.
  \<^item> The runtime conversion of an assigned value to the length of an array is a
    parameter \<open>toLength\<close> of every definition that reaches it; \<open>ToArrayLength\<close> is the
    one used at concrete inputs.
  \<^item> Writing the file (\<^verbatim>\<open>saveData\<close>) is outside the model: the state of the store is
    its in-memory array.
\<close>

subsection \<open>Values\<close>

datatype jsnum = NaN | NegInfinity | Finite rat | PosInfinity

datatype jsval = JUndefined | JNull | JBool bool | JNum jsnum | JStr string | JRef nat

subsection \<open>Strings: the runtime's string methods\<close>

text \<open>\<^verbatim>\<open>s.indexOf(op)\<close>: the index of the leftmost occurrence, \<open>None\<close> for \<open>-1\<close>.\<close>

fun indexOf :: "string \<Rightarrow> string \<Rightarrow> nat option" where
  "indexOf [] op = (if op = [] then Some 0 else None)"
| "indexOf (c # cs) op =
     (if prefix op (c # cs) then Some 0 else map_option Suc (indexOf cs op))"

text \<open>\<^verbatim>\<open>s.includes(t)\<close>, \<^verbatim>\<open>s.startsWith(t)\<close> and \<^verbatim>\<open>s.endsWith(t)\<close>.\<close>

definition includes_str :: "string \<Rightarrow> string \<Rightarrow> bool" where
  "includes_str s t = (indexOf s t \<noteq> None)"

definition startsWith :: "string \<Rightarrow> string \<Rightarrow> bool" where
  "startsWith s t = (take (length t) s = t)"

definition endsWith :: "string \<Rightarrow> string \<Rightarrow> bool" where
  "endsWith s t = (length t \<le> length s \<and> drop (length s - length t) s = t)"

text \<open>
  \<^verbatim>\<open>s.trim()\<close> removes white space and line terminators at both ends; these are the
  ones below 256: tab, line feed, vertical tab, form feed, carriage return, space and
  no-break space.
\<close>

definition whiteSpaceChars :: "char list" where
  "whiteSpaceChars = [CHR 0x09, CHR 0x0A, CHR 0x0B, CHR 0x0C, CHR 0x0D, CHR 0x20, CHR 0xA0]"

definition isWhiteSpace :: "char \<Rightarrow> bool" where
  "isWhiteSpace c = (c \<in> set whiteSpaceChars)"

definition trim :: "string \<Rightarrow> string" where
  "trim s = rev (dropWhile isWhiteSpace (rev (dropWhile isWhiteSpace s)))"

text \<open>\<^verbatim>\<open>s.split('.')\<close>: never empty; the empty string splits into one empty segment.\<close>

fun split_on :: "char \<Rightarrow> string \<Rightarrow> string list" where
  "split_on d [] = [[]]"
| "split_on d (c # cs) =
     (if c = d then [] # split_on d cs
      else (case split_on d cs of w # ws \<Rightarrow> (c # w) # ws | [] \<Rightarrow> [[c]]))"

subsection \<open>The conversion of a string to a number\<close>

text \<open>
  The grammar of the runtime's string-to-number conversion: optional white space around
  an optionally signed decimal literal (with fraction and exponent), \<^verbatim>\<open>Infinity\<close>, or an
  unsigned binary, octal or hexadecimal integer; the empty string is \<open>0\<close>; everything
  else is \<open>NaN\<close>. The value is the exact one the literal denotes (the runtime rounds it
  to the nearest double, which no definition below depends on).
\<close>

primrec digitIn :: "string \<Rightarrow> char \<Rightarrow> nat option" where
  "digitIn [] c = None"
| "digitIn (d # ds) c = (if c = d then Some 0 else map_option Suc (digitIn ds c))"

definition digitValue :: "nat \<Rightarrow> char \<Rightarrow> nat option" where
  "digitValue radix c =
     (case digitIn ''0123456789abcdef'' c of
        Some v \<Rightarrow> if v < radix then Some v else None
      | None \<Rightarrow>
          (case digitIn ''ABCDEF'' c of
             Some v \<Rightarrow> if v + 10 < radix then Some (v + 10) else None
           | None \<Rightarrow> None))"

fun digitsValue :: "nat \<Rightarrow> string \<Rightarrow> nat \<Rightarrow> nat option" where
  "digitsValue radix [] acc = Some acc"
| "digitsValue radix (c # cs) acc =
     (case digitValue radix c of
        None \<Rightarrow> None
      | Some v \<Rightarrow> digitsValue radix cs (acc * radix + v))"

definition natLiteral :: "nat \<Rightarrow> string \<Rightarrow> nat option" where
  "natLiteral radix s = (if s = [] then None else digitsValue radix s 0)"

definition isDecDigit :: "char \<Rightarrow> bool" where
  "isDecDigit c = (digitValue 10 c \<noteq> None)"

definition exponentPart :: "string \<Rightarrow> int option" where
  "exponentPart s =
     (case s of
        [] \<Rightarrow> Some 0
      | c # t \<Rightarrow>
          if c = CHR ''e'' \<or> c = CHR ''E'' then
            (case t of
               [] \<Rightarrow> None
             | d # u \<Rightarrow>
                 if d = CHR ''+'' then map_option int (natLiteral 10 u)
                 else if d = CHR ''-'' then map_option (\<lambda>n. - int n) (natLiteral 10 u)
                 else map_option int (natLiteral 10 t))
          else None)"

definition scale10 :: "nat \<Rightarrow> int \<Rightarrow> rat" where
  "scale10 m e = (if 0 \<le> e then of_nat m * 10 ^ nat e else of_nat m / 10 ^ nat (- e))"

definition unsignedDecimal :: "string \<Rightarrow> rat option" where
  "unsignedDecimal s =
     (let ip = takeWhile isDecDigit s;
          r = dropWhile isDecDigit s;
          dot = (r \<noteq> [] \<and> hd r = CHR ''.'');
          fp = (if dot then takeWhile isDecDigit (tl r) else []);
          rest = (if dot then dropWhile isDecDigit (tl r) else r)
      in if ip = [] \<and> fp = [] then None
         else (case (digitsValue 10 (ip @ fp) 0, exponentPart rest) of
                 (Some m, Some e) \<Rightarrow> Some (scale10 m (e - int (length fp)))
               | _ \<Rightarrow> None))"

definition decimalLiteral :: "bool \<Rightarrow> string \<Rightarrow> jsnum" where
  "decimalLiteral neg s =
     (if s = ''Infinity'' then (if neg then NegInfinity else PosInfinity)
      else (case unsignedDecimal s of
              None \<Rightarrow> NaN
            | Some q \<Rightarrow> Finite (if neg then - q else q)))"

definition nonDecimalLiteral :: "string \<Rightarrow> nat option" where
  "nonDecimalLiteral s =
     (case s of
        a # b # t \<Rightarrow>
          if a \<noteq> CHR ''0'' then None
          else if b = CHR ''x'' \<or> b = CHR ''X'' then natLiteral 16 t
          else if b = CHR ''o'' \<or> b = CHR ''O'' then natLiteral 8 t
          else if b = CHR ''b'' \<or> b = CHR ''B'' then natLiteral 2 t
          else None
      | _ \<Rightarrow> None)"

definition StringToNumber :: "string \<Rightarrow> jsnum" where
  "StringToNumber str =
     (let s = trim str in
      if s = [] then Finite 0
      else (case nonDecimalLiteral s of
              Some n \<Rightarrow> Finite (of_nat n)
            | None \<Rightarrow>
                if hd s = CHR ''+'' then decimalLiteral False (tl s)
                else if hd s = CHR ''-'' then decimalLiteral True (tl s)
                else decimalLiteral False s))"

subsection \<open>The operator table (\<^verbatim>\<open>Constant\<close>)\<close>

text \<open>\<^verbatim>\<open>Object.values(queryOperators)\<close>: the symbols in the order the table declares them.\<close>

definition queryOperators :: "string list" where
  "queryOperators =
     [''='', ''!='', ''>'', ''<'', ''>='', ''<='', ''contains'', ''startsWith'', ''endsWith'']"

text \<open>
  \<^verbatim>\<open>getOperatorsSorted\<close> sorts the symbols with the comparator \<^verbatim>\<open>b.length - a.length\<close>.
  The runtime's sort is stable, like the insertion sort \<^const>\<open>sort_key\<close>: symbols of the
  same length keep the order of the table.
\<close>

definition getOperatorsSorted :: "string list" where
  "getOperatorsSorted = sort_key (\<lambda>s. - int (length s)) queryOperators"

subsection \<open>Parsing a condition string (\<^verbatim>\<open>QueryBuilder.parseCondition\<close>)\<close>

record condition =
  field :: string
  operator :: string
  val :: jsval

text \<open>\<^verbatim>\<open>stripQuotes\<close>; \<^verbatim>\<open>value.slice(1, -1)\<close> drops the first and the last code unit.\<close>

definition slice_1_m1 :: "string \<Rightarrow> string" where
  "slice_1_m1 s = drop 1 (take (length s - 1) s)"

definition stripQuotes :: "string \<Rightarrow> string" where
  "stripQuotes v =
     (if (startsWith v [CHR 0x22] \<and> endsWith v [CHR 0x22]) \<or>
         (startsWith v [CHR 0x27] \<and> endsWith v [CHR 0x27])
      then slice_1_m1 v else v)"

definition parseSpecialValue :: "(string \<Rightarrow> jsnum) \<Rightarrow> string \<Rightarrow> jsval" where
  "parseSpecialValue toNumber v =
     (if v = ''true'' then JBool True
      else if v = ''false'' then JBool False
      else if v = ''null'' then JNull
      else if v = ''undefined'' then JUndefined
      else if toNumber v \<noteq> NaN \<and> v \<noteq> [] then JNum (toNumber v)
      else JStr v)"

text \<open>
  The loop of \<^verbatim>\<open>parseCondition\<close> over the sorted symbols: the first symbol with an
  occurrence returns.
\<close>

fun parseCondition_loop :: "(string \<Rightarrow> jsnum) \<Rightarrow> string \<Rightarrow> string list \<Rightarrow> condition option" where
  "parseCondition_loop toNumber s [] = None"
| "parseCondition_loop toNumber s (op # ops) =
     (case indexOf s op of
        Some i \<Rightarrow>
          Some \<lparr>field = trim (take i s), operator = op,
                val = parseSpecialValue toNumber (stripQuotes (trim (drop (i + length op) s)))\<rparr>
      | None \<Rightarrow> parseCondition_loop toNumber s ops)"

text \<open>
  The static map \<^verbatim>\<open>conditionRecent\<close> from a condition string to its parse (\<open>Some None\<close>
  is a remembered \<^verbatim>\<open>null\<close>). \<^verbatim>\<open>parseCondition\<close> returns the result and the new map.
\<close>

type_synonym cache = "string \<Rightarrow> condition option option"

definition parseCondition ::
  "(string \<Rightarrow> jsnum) \<Rightarrow> cache \<Rightarrow> string \<Rightarrow> condition option \<times> cache" where
  "parseCondition toNumber conditionRecent s =
     (case conditionRecent s of
        Some r \<Rightarrow> (r, conditionRecent)
      | None \<Rightarrow>
          (let r = parseCondition_loop toNumber s getOperatorsSorted
           in (r, conditionRecent(s \<mapsto> r))))"

text \<open>The maps the program can hold: the empty one, and what a call leaves behind.\<close>

inductive reachable_cache :: "(string \<Rightarrow> jsnum) \<Rightarrow> cache \<Rightarrow> bool" for toNumber where
  initial: "reachable_cache toNumber Map.empty"
| parsed: "reachable_cache toNumber c \<Longrightarrow> reachable_cache toNumber (snd (parseCondition toNumber c s))"

subsection \<open>Objects and the store\<close>

text \<open>
  An object is a map, an array or a function, with a prototype (another object, or
  none) and its own properties in the order they were created. An own property is a
  data property, or the accessor \<^verbatim>\<open>__proto__\<close> that the runtime puts on
  \<^verbatim>\<open>Object.prototype\<close>. An array holds its elements under the keys \<open>0\<close>, \<open>1\<close>, ... and
  carries its length. A reference is an index of the store; \<^verbatim>\<open>Object.prototype\<close> is
  the object at reference \<open>0\<close>, and \<^verbatim>\<open>{}\<close> allocates at the end of the store, with that
  prototype.
\<close>

datatype objclass = PlainObject | ArrayObject nat | FunctionObject

datatype slot = Data jsval | ProtoAccessor

datatype jsobj = JsObj (cls: objclass) (proto: "nat option") (props: "(string \<times> slot) list")

type_synonym heap = "jsobj list"

definition isArray :: "jsobj \<Rightarrow> bool" where
  "isArray ob = (case cls ob of ArrayObject n \<Rightarrow> True | _ \<Rightarrow> False)"

text \<open>The own property of an object under a key; an array has its length under \<open>length\<close>.\<close>

definition own_slot :: "jsobj \<Rightarrow> string \<Rightarrow> slot option" where
  "own_slot ob k =
     (case cls ob of
        ArrayObject n \<Rightarrow>
          if k = ''length'' then Some (Data (JNum (Finite (of_nat n)))) else map_of (props ob) k
      | _ \<Rightarrow> map_of (props ob) k)"

text \<open>
  The property found under a key along the prototype chain, the object itself first.
  The chain of a store of \<open>n\<close> objects has at most \<open>n\<close> objects, so \<open>n\<close> steps reach
  its end.
\<close>

fun find_slot :: "nat \<Rightarrow> heap \<Rightarrow> nat \<Rightarrow> string \<Rightarrow> slot option" where
  "find_slot 0 h a k = None"
| "find_slot (Suc fuel) h a k =
     (if a < length h
      then (case own_slot (h ! a) k of
              Some s \<Rightarrow> Some s
            | None \<Rightarrow>
                (case proto (h ! a) of
                   Some p \<Rightarrow> find_slot fuel h p k
                 | None \<Rightarrow> None))
      else None)"

definition lookup_slot :: "heap \<Rightarrow> nat \<Rightarrow> string \<Rightarrow> slot option" where
  "lookup_slot h a k = find_slot (length h) h a k"

text \<open>
  \<^verbatim>\<open>key in current\<close> and \<^verbatim>\<open>current[key]\<close>. Reading the accessor \<^verbatim>\<open>__proto__\<close> gives the
  prototype of the object that is read, \<^verbatim>\<open>null\<close> when it has none.
\<close>

definition has_prop :: "heap \<Rightarrow> nat \<Rightarrow> string \<Rightarrow> bool" where
  "has_prop h a k = (lookup_slot h a k \<noteq> None)"

definition get_prop :: "heap \<Rightarrow> nat \<Rightarrow> string \<Rightarrow> jsval" where
  "get_prop h a k =
     (case lookup_slot h a k of
        None \<Rightarrow> JUndefined
      | Some (Data v) \<Rightarrow> v
      | Some ProtoAccessor \<Rightarrow>
          (case proto (h ! a) of Some p \<Rightarrow> JRef p | None \<Rightarrow> JNull))"

datatype jstype = TUndefined | TObject | TBoolean | TNumber | TString | TFunction

fun typeof :: "heap \<Rightarrow> jsval \<Rightarrow> jstype" where
  "typeof h JUndefined = TUndefined"
| "typeof h JNull = TObject"
| "typeof h (JBool b) = TBoolean"
| "typeof h (JNum n) = TNumber"
| "typeof h (JStr s) = TString"
| "typeof h (JRef a) =
     (if a < length h \<and> cls (h ! a) = FunctionObject then TFunction else TObject)"

subsection \<open>Assignment to a property\<close>

text \<open>
  What the program's code, which is strict, can raise in an assignment, and the result
  of a write through a reference that is not in the store (no state of the program has
  one).
\<close>

datatype fault = RangeError | TypeError | NoSuchObject

text \<open>An array index: the decimal form, without leading zeros, of a number below \<open>2^32 - 1\<close>.\<close>

definition arrayIndex :: "string \<Rightarrow> nat option" where
  "arrayIndex k =
     (if k = ''0'' then Some 0
      else if k \<noteq> [] \<and> hd k \<noteq> CHR ''0'' then
        (case natLiteral 10 k of
           Some n \<Rightarrow> if n < 2 ^ 32 - 1 then Some n else None
         | None \<Rightarrow> None)
      else None)"

text \<open>
  The setter of \<^verbatim>\<open>__proto__\<close>, on the object that is assigned to. A value that is neither
  an object nor \<^verbatim>\<open>null\<close> changes nothing. The prototype of \<^verbatim>\<open>Object.prototype\<close> cannot be
  changed, and no object can become its own ancestor: both raise a \<^verbatim>\<open>TypeError\<close>.
\<close>

fun proto_reaches :: "nat \<Rightarrow> heap \<Rightarrow> nat option \<Rightarrow> nat \<Rightarrow> bool" where
  "proto_reaches 0 h p a = False"
| "proto_reaches (Suc fuel) h None a = False"
| "proto_reaches (Suc fuel) h (Some p) a =
     (p = a \<or> (p < length h \<and> proto_reaches fuel h (proto (h ! p)) a))"

definition set_prototype :: "heap \<Rightarrow> nat \<Rightarrow> jsval \<Rightarrow> fault + heap" where
  "set_prototype h a v =
     (case (case v of JRef p \<Rightarrow> Some (Some p) | JNull \<Rightarrow> Some None | _ \<Rightarrow> None) of
        None \<Rightarrow> Inr h
      | Some np \<Rightarrow>
          if np = proto (h ! a) then Inr h
          else if a = 0 then Inl TypeError
          else if proto_reaches (length h) h np a then Inl TypeError
          else Inr (h[a := JsObj (cls (h ! a)) np (props (h ! a))]))"

text \<open>
  Writing an own data property. On an array, a write to an index beyond the end
  lengthens the array, and a write to \<open>length\<close> converts the value to a length (the
  parameter \<open>toLength\<close>: the runtime's conversion, which raises a \<^verbatim>\<open>RangeError\<close> for a value
  that is not a length) and drops the elements from that length on.
\<close>

definition define_own ::
  "(heap \<Rightarrow> jsval \<Rightarrow> fault + nat) \<Rightarrow> heap \<Rightarrow> nat \<Rightarrow> string \<Rightarrow> jsval \<Rightarrow> fault + heap" where
  "define_own toLength h a k v =
     (let ob = h ! a in
      case cls ob of
        ArrayObject len \<Rightarrow>
          if k = ''length'' then
            (case toLength h v of
               Inl e \<Rightarrow> Inl e
             | Inr n \<Rightarrow>
                 Inr (h[a := JsObj (ArrayObject n) (proto ob)
                        (filter (\<lambda>kv. case arrayIndex (fst kv) of Some i \<Rightarrow> i < n | None \<Rightarrow> True)
                           (props ob))]))
          else
            (case arrayIndex k of
               Some i \<Rightarrow>
                 Inr (h[a := JsObj (ArrayObject (max len (Suc i))) (proto ob)
                        (AList.update k (Data v) (props ob))])
             | None \<Rightarrow>
                 Inr (h[a := JsObj (ArrayObject len) (proto ob) (AList.update k (Data v) (props ob))]))
      | c \<Rightarrow> Inr (h[a := JsObj c (proto ob) (AList.update k (Data v) (props ob))]))"

text \<open>
  \<^verbatim>\<open>current[key] = v\<close>: when the property found along the prototype chain is the accessor,
  its setter runs; otherwise the value becomes an own data property of the object.
\<close>

definition set_prop ::
  "(heap \<Rightarrow> jsval \<Rightarrow> fault + nat) \<Rightarrow> heap \<Rightarrow> nat \<Rightarrow> string \<Rightarrow> jsval \<Rightarrow> fault + heap" where
  "set_prop toLength h a k v =
     (if \<not> a < length h then Inl NoSuchObject
      else (case lookup_slot h a k of
              Some ProtoAccessor \<Rightarrow> set_prototype h a v
            | _ \<Rightarrow> define_own toLength h a k v))"

text \<open>
  The conversion to a length used at concrete inputs: \<^verbatim>\<open>null\<close> and the booleans have
  their numbers, a number is a length when it is a whole number from \<open>0\<close> to \<open>2^32 - 1\<close>,
  a string converts through its number. An object converts through its string form;
  the case kept here is the one of a string form that is not a number.
\<close>

definition validLength :: "jsnum \<Rightarrow> fault + nat" where
  "validLength x =
     (case x of
        Finite q \<Rightarrow>
          if 0 \<le> q \<and> q < 2 ^ 32 \<and> of_int \<lfloor>q\<rfloor> = q then Inr (nat \<lfloor>q\<rfloor>) else Inl RangeError
      | _ \<Rightarrow> Inl RangeError)"

definition ToArrayLength :: "heap \<Rightarrow> jsval \<Rightarrow> fault + nat" where
  "ToArrayLength h v =
     (case v of
        JUndefined \<Rightarrow> Inl RangeError
      | JNull \<Rightarrow> Inr 0
      | JBool b \<Rightarrow> Inr (if b then 1 else 0)
      | JNum x \<Rightarrow> validLength x
      | JStr s \<Rightarrow> validLength (StringToNumber s)
      | JRef a \<Rightarrow> Inl RangeError)"

subsection \<open>Evaluating a condition (\<^verbatim>\<open>QueryBuilder.evaluateCondition\<close>)\<close>

text \<open>The loop of \<^verbatim>\<open>getNestedValue\<close> over the segments of a dotted path.\<close>

fun getNestedValue_loop :: "heap \<Rightarrow> jsval \<Rightarrow> string list \<Rightarrow> jsval" where
  "getNestedValue_loop h current [] = current"
| "getNestedValue_loop h current (key # keys) =
     (if current = JNull \<or> current = JUndefined \<or> typeof h current \<noteq> TObject then JUndefined
      else (case current of
              JRef a \<Rightarrow> getNestedValue_loop h (get_prop h a key) keys
            | _ \<Rightarrow> JUndefined))"

definition getNestedValue :: "heap \<Rightarrow> nat \<Rightarrow> string \<Rightarrow> jsval" where
  "getNestedValue h obj path =
     (if \<not> includes_str path ''.'' then get_prop h obj path
      else getNestedValue_loop h (JRef obj) (split_on CHR ''.'' path))"

text \<open>
  The comparisons of the runtime: \<^verbatim>\<open>===\<close> (on objects, the identity of the reference; on
  numbers, never true of \<open>NaN\<close>), \<^verbatim>\<open><\<close> on numbers, and the other three orders from it.
\<close>

fun num_equals :: "jsnum \<Rightarrow> jsnum \<Rightarrow> bool" where
  "num_equals NaN y = False"
| "num_equals x NaN = False"
| "num_equals x y = (x = y)"

fun num_less :: "jsnum \<Rightarrow> jsnum \<Rightarrow> bool" where
  "num_less NaN y = False"
| "num_less x NaN = False"
| "num_less PosInfinity y = False"
| "num_less x NegInfinity = False"
| "num_less NegInfinity y = True"
| "num_less x PosInfinity = True"
| "num_less (Finite x) (Finite y) = (x < y)"

definition num_less_eq :: "jsnum \<Rightarrow> jsnum \<Rightarrow> bool" where
  "num_less_eq x y = (num_less x y \<or> num_equals x y)"

fun strict_equals :: "jsval \<Rightarrow> jsval \<Rightarrow> bool" where
  "strict_equals (JNum x) (JNum y) = num_equals x y"
| "strict_equals x y = (x = y)"

fun the_number :: "jsval \<Rightarrow> jsnum" where
  "the_number (JNum x) = x"
| "the_number v = NaN"

fun the_string :: "jsval \<Rightarrow> string" where
  "the_string (JStr s) = s"
| "the_string v = []"

text \<open>
  \<^verbatim>\<open>evaluateCondition\<close>: the \<^verbatim>\<open>switch\<close> over the operator symbol. \<open>the_number\<close> and
  \<open>the_string\<close> are read only behind the \<^verbatim>\<open>typeof\<close> tests, as in the source.
\<close>

definition evaluateCondition :: "heap \<Rightarrow> nat \<Rightarrow> condition \<Rightarrow> bool" where
  "evaluateCondition h item cond =
     (let fieldValue = getNestedValue h item (field cond);
          v = val cond;
          op = operator cond
      in if op = ''='' then strict_equals fieldValue v
         else if op = ''!='' then \<not> strict_equals fieldValue v
         else if op = ''>'' then
           typeof h fieldValue = TNumber \<and> typeof h v = TNumber \<and>
           num_less (the_number v) (the_number fieldValue)
         else if op = ''<'' then
           typeof h fieldValue = TNumber \<and> typeof h v = TNumber \<and>
           num_less (the_number fieldValue) (the_number v)
         else if op = ''>='' then
           typeof h fieldValue = TNumber \<and> typeof h v = TNumber \<and>
           num_less_eq (the_number v) (the_number fieldValue)
         else if op = ''<='' then
           typeof h fieldValue = TNumber \<and> typeof h v = TNumber \<and>
           num_less_eq (the_number fieldValue) (the_number v)
         else if op = ''contains'' then
           typeof h fieldValue = TString \<and> typeof h v = TString \<and>
           includes_str (the_string fieldValue) (the_string v)
         else if op = ''startsWith'' then
           typeof h fieldValue = TString \<and> typeof h v = TString \<and>
           startsWith (the_string fieldValue) (the_string v)
         else if op = ''endsWith'' then
           typeof h fieldValue = TString \<and> typeof h v = TString \<and>
           endsWith (the_string fieldValue) (the_string v)
         else False)"

subsection \<open>Setting a nested value (\<^verbatim>\<open>setNestedValue\<close>)\<close>

text \<open>
  \<^verbatim>\<open>Jsonary.setNestedValue\<close> and \<^verbatim>\<open>QueryBuilder.setNestedValue\<close> are the same text line
  by line; one definition embeds both. The loop walks all segments but the last; the
  last segment is written. After a segment, \<^verbatim>\<open>current\<close> is what \<^verbatim>\<open>current[key]\<close> reads; if
  that is not an object, the next step raises a \<^verbatim>\<open>TypeError\<close>.
\<close>

fun setNestedValue_loop ::
  "(heap \<Rightarrow> jsval \<Rightarrow> fault + nat) \<Rightarrow> heap \<Rightarrow> nat \<Rightarrow> string list \<Rightarrow> jsval \<Rightarrow> fault + heap" where
  "setNestedValue_loop toLength h current [] v = Inr h"
| "setNestedValue_loop toLength h current [lastKey] v = set_prop toLength h current lastKey v"
| "setNestedValue_loop toLength h current (key # keys) v =
     (case (if \<not> has_prop h current key \<or> typeof h (get_prop h current key) \<noteq> TObject \<or>
               get_prop h current key = JNull
            then set_prop toLength (h @ [JsObj PlainObject (Some 0) []]) current key (JRef (length h))
            else Inr h) of
        Inl e \<Rightarrow> Inl e
      | Inr h' \<Rightarrow>
          (case get_prop h' current key of
             JRef a \<Rightarrow> setNestedValue_loop toLength h' a keys v
           | _ \<Rightarrow> Inl TypeError))"

definition setNestedValue ::
  "(heap \<Rightarrow> jsval \<Rightarrow> fault + nat) \<Rightarrow> heap \<Rightarrow> nat \<Rightarrow> string \<Rightarrow> jsval \<Rightarrow> fault + heap" where
  "setNestedValue toLength h obj path v =
     setNestedValue_loop toLength h obj (split_on CHR ''.'' path) v"

text \<open>
  The body of the loop over \<^verbatim>\<open>Object.keys(data)\<close> in \<^verbatim>\<open>update\<close> and \<^verbatim>\<open>updateWhere\<close>, and the
  loop. A patch is the list of its keys and values in the order of \<^verbatim>\<open>Object.keys\<close>.
\<close>

definition applyPatchKey ::
  "(heap \<Rightarrow> jsval \<Rightarrow> fault + nat) \<Rightarrow> heap \<Rightarrow> nat \<Rightarrow> string \<times> jsval \<Rightarrow> fault + heap" where
  "applyPatchKey toLength h item kv =
     (if includes_str (fst kv) ''.'' then setNestedValue toLength h item (fst kv) (snd kv)
      else set_prop toLength h item (fst kv) (snd kv))"

fun applyPatch ::
  "(heap \<Rightarrow> jsval \<Rightarrow> fault + nat) \<Rightarrow> heap \<Rightarrow> nat \<Rightarrow> (string \<times> jsval) list \<Rightarrow> fault + heap" where
  "applyPatch toLength h item [] = Inr h"
| "applyPatch toLength h item (kv # kvs) =
     (case applyPatchKey toLength h item kv of
        Inl e \<Rightarrow> Inl e
      | Inr h' \<Rightarrow> applyPatch toLength h' item kvs)"

subsection \<open>The store (\<^verbatim>\<open>Jsonary\<close>) and the query builder (\<^verbatim>\<open>QueryBuilder\<close>)\<close>

text \<open>
  The store's state is its array of records (references). A builder holds the state of
  its parent store, if it has one: after a builder's terminal operation the store is
  what the builder's parent is.
\<close>

record jsonary =
  data :: "nat list"

definition syncFromQueryBuilder :: "jsonary \<Rightarrow> nat list \<Rightarrow> jsonary" where
  "syncFromQueryBuilder st updatedData = st\<lparr>data := updatedData\<rparr>"

record queryBuilder =
  parent :: "jsonary option"
  conditions :: "condition list"
  originalData :: "nat list"
  workingData :: "nat list"

text \<open>The constructor: \<^verbatim>\<open>this.data = [...data]\<close> is a copy with the same elements.\<close>

definition QueryBuilder_new :: "nat list \<Rightarrow> jsonary option \<Rightarrow> queryBuilder" where
  "QueryBuilder_new d p = \<lparr>parent = p, conditions = [], originalData = d, workingData = d\<rparr>"

text \<open>
  The argument of \<^verbatim>\<open>where\<close>, \<^verbatim>\<open>deleteWhere\<close> and \<^verbatim>\<open>updateWhere\<close>: a condition string, or a
  predicate of a record (a function of the store and the record's reference).
\<close>

datatype whereArg = StringCondition string | FunctionCondition "heap \<Rightarrow> nat \<Rightarrow> bool"

definition QueryBuilder_where ::
  "(string \<Rightarrow> jsnum) \<Rightarrow> heap \<Rightarrow> cache \<Rightarrow> queryBuilder \<Rightarrow> whereArg \<Rightarrow> queryBuilder \<times> cache" where
  "QueryBuilder_where toNumber h c qb arg =
     (case arg of
        FunctionCondition f \<Rightarrow> (qb\<lparr>workingData := filter (f h) (workingData qb)\<rparr>, c)
      | StringCondition s \<Rightarrow>
          (case parseCondition toNumber c s of
             (Some parsed, c') \<Rightarrow>
               (qb\<lparr>conditions := conditions qb @ [parsed],
                   workingData := filter (\<lambda>item. evaluateCondition h item parsed) (workingData qb)\<rparr>,
                c')
           | (None, c') \<Rightarrow> (qb, c')))"

text \<open>A chain \<^verbatim>\<open>.where(a1).where(a2)...\<close> on one builder.\<close>

fun where_chain ::
  "(string \<Rightarrow> jsnum) \<Rightarrow> heap \<Rightarrow> cache \<Rightarrow> queryBuilder \<Rightarrow> whereArg list \<Rightarrow> queryBuilder \<times> cache" where
  "where_chain toNumber h c qb [] = (qb, c)"
| "where_chain toNumber h c qb (arg # args) =
     (case QueryBuilder_where toNumber h c qb arg of
        (qb', c') \<Rightarrow> where_chain toNumber h c' qb' args)"

text \<open>
  \<^verbatim>\<open>delete\<close>: the loop runs \<open>i\<close> from the last index down to \<open>0\<close> (the argument is
  \<open>i + 1\<close>); \<^verbatim>\<open>splice(i, 1)\<close> removes the element at \<open>i\<close>. A read past the end is
  \<^verbatim>\<open>undefined\<close>, which the set of records does not hold.
\<close>

definition splice1 :: "nat \<Rightarrow> 'a list \<Rightarrow> 'a list" where
  "splice1 i xs = take i xs @ drop (Suc i) xs"

fun delete_loop :: "nat set \<Rightarrow> nat list \<Rightarrow> nat \<Rightarrow> nat list" where
  "delete_loop itemsToDelete xs 0 = xs"
| "delete_loop itemsToDelete xs (Suc i) =
     (if i < length xs \<and> xs ! i \<in> itemsToDelete
      then delete_loop itemsToDelete (splice1 i xs) i
      else delete_loop itemsToDelete xs i)"

definition QueryBuilder_delete :: "queryBuilder \<Rightarrow> nat \<times> queryBuilder" where
  "QueryBuilder_delete qb =
     (let deletedCount = length (workingData qb);
          itemsToDelete = set (workingData qb);
          od = delete_loop itemsToDelete (originalData qb) (length (originalData qb))
      in (deletedCount,
          qb\<lparr>originalData := od, workingData := [],
             parent := map_option (\<lambda>p. syncFromQueryBuilder p od) (parent qb)\<rparr>))"



text \<open>\<^verbatim>\<open>Jsonary.where\<close>: a new builder over the store's array, with the store as parent.\<close>

definition Jsonary_where ::
  "(string \<Rightarrow> jsnum) \<Rightarrow> heap \<Rightarrow> cache \<Rightarrow> jsonary \<Rightarrow> whereArg \<Rightarrow> queryBuilder \<times> cache" where
  "Jsonary_where toNumber h c st arg =
     QueryBuilder_where toNumber h c (QueryBuilder_new (data st) (Some st)) arg"

text \<open>\<^verbatim>\<open>Jsonary.deleteWhere\<close>: the count, the store and the map of parses.\<close>

definition deleteWhere ::
  "(string \<Rightarrow> jsnum) \<Rightarrow> heap \<Rightarrow> cache \<Rightarrow> jsonary \<Rightarrow> whereArg \<Rightarrow> nat \<times> jsonary \<times> cache" where
  "deleteWhere toNumber h c st arg =
     (let initialLength = length (data st) in
      case arg of
        FunctionCondition f \<Rightarrow>
          (let st' = st\<lparr>data := filter (\<lambda>item. \<not> f h item) (data st)\<rparr>
           in (initialLength - length (data st'), st', c))
      | StringCondition s \<Rightarrow>
          (case parseCondition toNumber c s of
             (Some parsed, c') \<Rightarrow>
               (let st' = st\<lparr>data := filter (\<lambda>item. \<not> evaluateCondition h item parsed) (data st)\<rparr>
                in (initialLength - length (data st'), st', c'))
           | (None, c') \<Rightarrow> (initialLength - length (data st), st, c')))"

text \<open>
  \<^verbatim>\<open>Jsonary.updateWhere\<close>: the loop over the records carries the store of objects, the map
  of parses and \<^verbatim>\<open>updatedCount\<close>; each record is tested against the store as the
  earlier updates left it.
\<close>

definition shouldUpdate ::
  "(string \<Rightarrow> jsnum) \<Rightarrow> heap \<Rightarrow> cache \<Rightarrow> nat \<Rightarrow> whereArg \<Rightarrow> bool \<times> cache" where
  "shouldUpdate toNumber h c item arg =
     (case arg of
        FunctionCondition f \<Rightarrow> (f h item, c)
      | StringCondition s \<Rightarrow>
          (case parseCondition toNumber c s of
             (Some parsed, c') \<Rightarrow> (evaluateCondition h item parsed, c')
           | (None, c') \<Rightarrow> (False, c')))"

fun updateWhere_loop ::
  "(string \<Rightarrow> jsnum) \<Rightarrow> (heap \<Rightarrow> jsval \<Rightarrow> fault + nat) \<Rightarrow> whereArg \<Rightarrow> (string \<times> jsval) list \<Rightarrow>
     nat list \<Rightarrow> heap \<Rightarrow> cache \<Rightarrow> nat \<Rightarrow> fault + nat \<times> heap \<times> cache" where
  "updateWhere_loop toNumber toLength arg patch [] h c updatedCount = Inr (updatedCount, h, c)"
| "updateWhere_loop toNumber toLength arg patch (item # items) h c updatedCount =
     (case shouldUpdate toNumber h c item arg of
        (True, c') \<Rightarrow>
          (case applyPatch toLength h item patch of
             Inl e \<Rightarrow> Inl e
           | Inr h' \<Rightarrow>
               updateWhere_loop toNumber toLength arg patch items h' c' (Suc updatedCount))
      | (False, c') \<Rightarrow> updateWhere_loop toNumber toLength arg patch items h c' updatedCount)"

definition updateWhere ::
  "(string \<Rightarrow> jsnum) \<Rightarrow> (heap \<Rightarrow> jsval \<Rightarrow> fault + nat) \<Rightarrow> heap \<Rightarrow> cache \<Rightarrow> jsonary \<Rightarrow> whereArg \<Rightarrow>
     (string \<times> jsval) list \<Rightarrow> fault + nat \<times> heap \<times> jsonary \<times> cache" where
  "updateWhere toNumber toLength h c st arg patch =
     (case updateWhere_loop toNumber toLength arg patch (data st) h c 0 of
        Inl e \<Rightarrow> Inl e
      | Inr (n, h', c') \<Rightarrow> Inr (n, h', st, c'))"

subsection \<open>The objects the runtime starts with\<close>

text \<open>
  The store used at concrete inputs begins with the objects that a record's prototype
  chain reaches: \<^verbatim>\<open>Object.prototype\<close> at reference \<open>0\<close>, \<^verbatim>\<open>Function.prototype\<close> at \<open>1\<close>,
  \<^verbatim>\<open>Array.prototype\<close> at \<open>2\<close>, and one function object for each method they hold (the
  names of ECMAScript 2023). Function objects are kept without their own properties
  (their name and length): no walk of the program enters a function. The records and
  their values follow from reference \<open>58\<close> on.
\<close>

definition objectPrototypeMethods :: "string list" where
  "objectPrototypeMethods =
     [''constructor'', ''__defineGetter__'', ''__defineSetter__'', ''hasOwnProperty'',
      ''__lookupGetter__'', ''__lookupSetter__'', ''isPrototypeOf'', ''propertyIsEnumerable'',
      ''toString'', ''valueOf'', ''toLocaleString'']"

definition functionPrototypeMethods :: "string list" where
  "functionPrototypeMethods = [''constructor'', ''apply'', ''bind'', ''call'', ''toString'']"

definition arrayPrototypeMethods :: "string list" where
  "arrayPrototypeMethods =
     [''constructor'', ''at'', ''concat'', ''copyWithin'', ''fill'', ''find'', ''findIndex'',
      ''findLast'', ''findLastIndex'', ''lastIndexOf'', ''pop'', ''push'', ''reverse'', ''shift'',
      ''unshift'', ''slice'', ''sort'', ''splice'', ''includes'', ''indexOf'', ''join'', ''keys'',
      ''entries'', ''values'', ''forEach'', ''filter'', ''flat'', ''flatMap'', ''map'', ''every'',
      ''some'', ''reduce'', ''reduceRight'', ''toLocaleString'', ''toString'', ''toReversed'',
      ''toSorted'', ''toSpliced'', ''with'']"

definition methodSlots :: "nat \<Rightarrow> string list \<Rightarrow> (string \<times> slot) list" where
  "methodSlots base names = zip names (map (\<lambda>i. Data (JRef i)) [base ..< base + length names])"

definition realm :: heap where
  "realm =
     [JsObj PlainObject None
        (methodSlots 3 objectPrototypeMethods @ [(''__proto__'', ProtoAccessor)]),
      JsObj FunctionObject (Some 0) (methodSlots 14 functionPrototypeMethods),
      JsObj (ArrayObject 0) (Some 0) (methodSlots 19 arrayPrototypeMethods)] @
     replicate 55 (JsObj FunctionObject (Some 1) [])"

subsection \<open>Predicates of the statements\<close>

text \<open>
  A path that does not resolve from a value: the value reached before some segment is
  not an object (it is \<^verbatim>\<open>undefined\<close>, \<^verbatim>\<open>null\<close>, a boolean, a number, a string or a
  function), or the segment is not a property, own or inherited, of the object reached.
\<close>

fun path_unresolved :: "heap \<Rightarrow> jsval \<Rightarrow> string list \<Rightarrow> bool" where
  "path_unresolved h current [] = False"
| "path_unresolved h current (key # keys) =
     (case current of
        JRef a \<Rightarrow>
          typeof h current \<noteq> TObject \<or> \<not> has_prop h a key \<or>
          path_unresolved h (get_prop h a key) keys
      | _ \<Rightarrow> True)"

text \<open>
  A field that does not resolve from a record: without a dot, the field is not a
  property of the record; with dots, its path does not resolve.
\<close>

definition field_unresolved :: "heap \<Rightarrow> nat \<Rightarrow> string \<Rightarrow> bool" where
  "field_unresolved h R F =
     (if includes_str F ''.'' then path_unresolved h (JRef R) (split_on CHR ''.'' F)
      else \<not> has_prop h R F)"

section \<open>Properties\<close>

subsection \<open>Parsing\<close>

lemma getOperatorsSorted_eq:
  "getOperatorsSorted =
     [''startsWith'', ''contains'', ''endsWith'', ''!='', ''>='', ''<='', ''='', ''>'', ''<'']"
  by (simp add: getOperatorsSorted_def queryOperators_def)

lemma indexOf_None_iff: "indexOf s op = None \<longleftrightarrow> \<not> sublist op s"
  by (induction s) (auto simp: sublist_Cons_right)

lemma indexOf_Some_split:
  "indexOf s op = Some i \<Longrightarrow> s = take i s @ op @ drop (i + length op) s"
proof (induction s arbitrary: i)
  case Nil
  then show ?case by (simp split: if_splits)
next
  case (Cons c cs)
  show ?case
  proof (cases "prefix op (c # cs)")
    case True
    then obtain zs where zs: "c # cs = op @ zs" by (auto simp: prefix_def)
    from True Cons.prems have "i = 0" by simp
    with zs show ?thesis by simp
  next
    case False
    with Cons.prems obtain j where j: "indexOf cs op = Some j" "i = Suc j" by auto
    from Cons.IH[OF j(1)] j(2) show ?thesis by simp
  qed
qed

lemma indexOf_prefix: "prefix op s \<Longrightarrow> indexOf s op = Some 0"
  by (cases s) auto

lemma indexOf_Some_leftmost:
  "indexOf (ps @ op @ ss) op = Some i \<Longrightarrow> i \<le> length ps"
proof (induction ps arbitrary: i)
  case Nil
  have "indexOf (op @ ss) op = Some 0" by (rule indexOf_prefix) simp
  with Nil show ?case by simp
next
  case (Cons p ps)
  show ?case
  proof (cases "prefix op (p # ps @ op @ ss)")
    case True
    with Cons.prems have "i = 0" by simp
    then show ?thesis by simp
  next
    case False
    with Cons.prems obtain j where j: "indexOf (ps @ op @ ss) op = Some j" "i = Suc j" by auto
    from Cons.IH[OF j(1)] j(2) show ?thesis by simp
  qed
qed

lemma indexOf_le: "indexOf s op = Some i \<Longrightarrow> i + length op \<le> length s"
proof (induction s arbitrary: i)
  case Nil
  then show ?case by (simp split: if_splits)
next
  case (Cons c cs)
  show ?case
  proof (cases "prefix op (c # cs)")
    case True
    with Cons.prems show ?thesis by (auto dest: prefix_length_le)
  next
    case False
    with Cons.prems obtain j where j: "indexOf cs op = Some j" "i = Suc j" by auto
    from Cons.IH[OF j(1)] j(2) show ?thesis by simp
  qed
qed

lemma parseCondition_loop_None_iff:
  "parseCondition_loop toNumber s ops = None \<longleftrightarrow> (\<forall>op \<in> set ops. \<not> sublist op s)"
  by (induction ops) (auto simp: indexOf_None_iff[symmetric] split: option.splits)

lemma parseCondition_loop_Some:
  "parseCondition_loop toNumber s ops = Some r \<Longrightarrow>
     \<exists>k i. k < length ops \<and> operator r = ops ! k \<and> (\<forall>j<k. \<not> sublist (ops ! j) s) \<and>
           indexOf s (ops ! k) = Some i \<and> field r = trim (take i s) \<and>
           val r = parseSpecialValue toNumber (stripQuotes (trim (drop (i + length (ops ! k)) s)))"
proof (induction ops)
  case Nil
  then show ?case by simp
next
  case (Cons op ops)
  show ?case
  proof (cases "indexOf s op")
    case None
    with Cons.prems have "parseCondition_loop toNumber s ops = Some r" by simp
    from Cons.IH[OF this] obtain k i where ki:
      "k < length ops" "operator r = ops ! k" "\<forall>j<k. \<not> sublist (ops ! j) s"
      "indexOf s (ops ! k) = Some i" "field r = trim (take i s)"
      "val r = parseSpecialValue toNumber (stripQuotes (trim (drop (i + length (ops ! k)) s)))"
      by blast
    from None have no: "\<not> sublist op s" by (simp add: indexOf_None_iff)
    have "\<forall>j<Suc k. \<not> sublist ((op # ops) ! j) s"
      using ki(3) no by (auto simp: less_Suc_eq_0_disj)
    with ki show ?thesis
      by (intro exI[of _ "Suc k"] exI[of _ i]) simp
  next
    case (Some i)
    with Cons.prems show ?thesis
      by (intro exI[of _ 0] exI[of _ i]) auto
  qed
qed

lemma reachable_cache_consistent:
  "reachable_cache toNumber c \<Longrightarrow> c s = Some r \<Longrightarrow>
     r = parseCondition_loop toNumber s getOperatorsSorted"
proof (induction arbitrary: s r rule: reachable_cache.induct)
  case initial
  then show ?case by simp
next
  case (parsed c s')
  then show ?case
    by (auto simp: parseCondition_def Let_def split: option.splits if_splits)
qed

lemma parseCondition_fst:
  "reachable_cache toNumber c \<Longrightarrow>
     fst (parseCondition toNumber c s) = parseCondition_loop toNumber s getOperatorsSorted"
  by (auto simp: parseCondition_def Let_def dest: reachable_cache_consistent split: option.splits)

lemma stripQuotes_eq:
  "stripQuotes v =
     (if v \<noteq> [] \<and> hd v = last v \<and> (hd v = CHR 0x22 \<or> hd v = CHR 0x27)
      then butlast (tl v) else v)"
proof -
  have sw: "startsWith v [q] \<longleftrightarrow> v \<noteq> [] \<and> hd v = q" for q
    by (cases v) (auto simp: startsWith_def)
  have ew: "endsWith v [q] \<longleftrightarrow> v \<noteq> [] \<and> last v = q" for q
  proof (cases v rule: rev_cases)
    case Nil
    then show ?thesis by (simp add: endsWith_def)
  next
    case (snoc ys y)
    then show ?thesis by (auto simp: endsWith_def)
  qed
  have "slice_1_m1 v = tl (butlast v)"
    by (simp add: slice_1_m1_def butlast_conv_take drop_Suc)
  then have sl: "slice_1_m1 v = butlast (tl v)"
    by (simp add: butlast_tl)
  show ?thesis
    unfolding stripQuotes_def sw ew sl by auto
qed

lemma parseCondition_loop_split:
  assumes "parseCondition_loop toNumber s ops = Some r"
  shows "\<exists>k ps ss. k < length ops \<and> operator r = ops ! k \<and>
           (\<forall>j<k. \<not> sublist (ops ! j) s) \<and>
           s = ps @ operator r @ ss \<and>
           (\<forall>ps' ss'. s = ps' @ operator r @ ss' \<longrightarrow> length ps \<le> length ps') \<and>
           field r = trim ps \<and>
           val r = parseSpecialValue toNumber (stripQuotes (trim ss))"
proof -
  from parseCondition_loop_Some[OF assms] obtain k i where ki:
    "k < length ops" "operator r = ops ! k" "\<forall>j<k. \<not> sublist (ops ! j) s"
    "indexOf s (ops ! k) = Some i" "field r = trim (take i s)"
    "val r = parseSpecialValue toNumber (stripQuotes (trim (drop (i + length (ops ! k)) s)))"
    by blast
  from ki(4) ki(2) have ix: "indexOf s (operator r) = Some i" by simp
  have split: "s = take i s @ operator r @ drop (i + length (operator r)) s"
    by (rule indexOf_Some_split[OF ix])
  have "i + length (operator r) \<le> length s" by (rule indexOf_le[OF ix])
  then have len: "length (take i s) = i" by simp
  have left: "\<forall>ps' ss'. s = ps' @ operator r @ ss' \<longrightarrow> length (take i s) \<le> length ps'"
    using ix len by (auto dest: indexOf_Some_leftmost)
  show ?thesis
    apply (rule exI[of _ k])
    apply (rule exI[of _ "take i s"])
    apply (rule exI[of _ "drop (i + length (operator r)) s"])
    using ki(1,2,3,5,6) split left by simp
qed

text \<open>
  Claim C1, as the code has it. The symbols are tried in the order \<open>startsWith\<close>,
  \<open>contains\<close>, \<open>endsWith\<close>, \<open>!=\<close>, \<open>>=\<close>, \<open><=\<close>, \<open>=\<close>, \<open>>\<close>, \<open><\<close>: by descending
  length, and among symbols of one length in the order of the table, so \<open>contains\<close>
  comes before \<open>endsWith\<close>. For every condition string, from every reachable map of
  parses: the result is none when no symbol occurs; otherwise its operator is the first
  symbol of that order that occurs anywhere in the string, the string splits at the
  leftmost occurrence of that symbol, the field is the trimmed part before it and the
  value is read from the trimmed part after it.
\<close>

theorem parseCondition_operator_precedence:
  assumes "reachable_cache toNumber c"
  shows "getOperatorsSorted =
           [''startsWith'', ''contains'', ''endsWith'', ''!='', ''>='', ''<='', ''='', ''>'', ''<''] \<and>
         (case fst (parseCondition toNumber c s) of
            None \<Rightarrow> \<forall>op \<in> set getOperatorsSorted. \<not> sublist op s
          | Some r \<Rightarrow>
              \<exists>k ps ss. k < length getOperatorsSorted \<and> operator r = getOperatorsSorted ! k \<and>
                (\<forall>j<k. \<not> sublist (getOperatorsSorted ! j) s) \<and>
                s = ps @ operator r @ ss \<and>
                (\<forall>ps' ss'. s = ps' @ operator r @ ss' \<longrightarrow> length ps \<le> length ps') \<and>
                field r = trim ps \<and>
                val r = parseSpecialValue toNumber (stripQuotes (trim ss)))"
proof (cases "parseCondition_loop toNumber s getOperatorsSorted")
  case None
  then have "\<forall>op \<in> set getOperatorsSorted. \<not> sublist op s"
    by (simp add: parseCondition_loop_None_iff)
  then show ?thesis
    unfolding parseCondition_fst[OF assms] None using getOperatorsSorted_eq by simp
next
  case (Some r)
  from parseCondition_loop_split[OF Some] show ?thesis
    unfolding parseCondition_fst[OF assms] Some using getOperatorsSorted_eq by simp
qed

theorem parseCondition_operator_precedence_witness:
  "reachable_cache StringToNumber Map.empty \<and>
   fst (parseCondition StringToNumber Map.empty ''a >= 1'') =
     Some \<lparr>field = ''a'', operator = ''>='', val = JNum (Finite 1)\<rparr> \<and>
   (\<exists>k ps ss. k < length getOperatorsSorted \<and> ''>='' = getOperatorsSorted ! k \<and>
      (\<forall>j<k. \<not> sublist (getOperatorsSorted ! j) ''a >= 1'') \<and>
      ''a >= 1'' = ps @ ''>='' @ ss \<and>
      (\<forall>ps' ss'. ''a >= 1'' = ps' @ ''>='' @ ss' \<longrightarrow> length ps \<le> length ps') \<and>
      ''a'' = trim ps \<and>
      JNum (Finite 1) = parseSpecialValue StringToNumber (stripQuotes (trim ss)))"
proof -
  have r: "reachable_cache StringToNumber Map.empty" by (rule reachable_cache.initial)
  have ev: "fst (parseCondition StringToNumber Map.empty ''a >= 1'') =
     Some \<lparr>field = ''a'', operator = ''>='', val = JNum (Finite 1)\<rparr>"
    by code_simp
  from parseCondition_operator_precedence[OF r, of "''a >= 1''"] r ev
  show ?thesis by simp
qed

text \<open>
  Claim C1 as stated puts \<open>endsWith\<close> before \<open>contains\<close>. In a string holding both, the
  code splits at \<open>contains\<close>.
\<close>

theorem parseCondition_endsWith_after_contains:
  "sublist ''endsWith'' ''x endsWith contains'' \<and>
   sublist ''contains'' ''x endsWith contains'' \<and>
   fst (parseCondition StringToNumber Map.empty ''x endsWith contains'') =
     Some \<lparr>field = ''x endsWith'', operator = ''contains'', val = JStr []\<rparr>"
  by code_simp



text \<open>
  Claim C7. For every string that parses, the value of the condition is read from the
  trimmed text after the operator symbol: one layer of quotes is removed when that text
  begins and ends with the same quote character (double or single), and the literal
  that remains becomes \<open>true\<close>, \<open>false\<close>, \<open>null\<close> or \<open>undefined\<close> when it is that word, its
  number when it is not empty and the conversion to a number does not give \<open>NaN\<close>, and
  the literal itself, as a string, otherwise.
\<close>

theorem parseCondition_value_coercion:
  assumes "reachable_cache toNumber c"
    and "fst (parseCondition toNumber c s) = Some r"
  shows "\<exists>ps ss. s = ps @ operator r @ ss \<and>
           (let rhs = trim ss;
                lit = (if rhs \<noteq> [] \<and> hd rhs = last rhs \<and>
                          (hd rhs = CHR 0x22 \<or> hd rhs = CHR 0x27)
                       then butlast (tl rhs) else rhs)
            in val r =
                 (if lit = ''true'' then JBool True
                  else if lit = ''false'' then JBool False
                  else if lit = ''null'' then JNull
                  else if lit = ''undefined'' then JUndefined
                  else if lit \<noteq> [] \<and> toNumber lit \<noteq> NaN then JNum (toNumber lit)
                  else JStr lit))"
proof -
  from assms have "parseCondition_loop toNumber s getOperatorsSorted = Some r"
    by (simp add: parseCondition_fst)
  from parseCondition_loop_split[OF this]
  obtain ps ss where sp: "s = ps @ operator r @ ss"
    and v: "val r = parseSpecialValue toNumber (stripQuotes (trim ss))"
    by blast
  have "val r =
      (let lit = stripQuotes (trim ss)
       in if lit = ''true'' then JBool True
          else if lit = ''false'' then JBool False
          else if lit = ''null'' then JNull
          else if lit = ''undefined'' then JUndefined
          else if lit \<noteq> [] \<and> toNumber lit \<noteq> NaN then JNum (toNumber lit)
          else JStr lit)"
    unfolding v parseSpecialValue_def Let_def by (simp add: conj_commute)
  with sp show ?thesis
    unfolding Let_def stripQuotes_eq[symmetric] by blast
qed

theorem parseCondition_value_coercion_witness:
  "reachable_cache StringToNumber Map.empty \<and>
   fst (parseCondition StringToNumber Map.empty (''a = '' @ [CHR 0x27] @ ''7'' @ [CHR 0x27])) =
     Some \<lparr>field = ''a'', operator = ''='', val = JNum (Finite 7)\<rparr> \<and>
   (\<exists>ps ss. ''a = '' @ [CHR 0x27] @ ''7'' @ [CHR 0x27] =
        ps @ operator \<lparr>field = ''a'', operator = ''='', val = JNum (Finite 7)\<rparr> @ ss \<and>
           (let rhs = trim ss;
                lit = (if rhs \<noteq> [] \<and> hd rhs = last rhs \<and>
                          (hd rhs = CHR 0x22 \<or> hd rhs = CHR 0x27)
                       then butlast (tl rhs) else rhs)
            in val \<lparr>field = ''a'', operator = ''='', val = JNum (Finite 7)\<rparr> =
                 (if lit = ''true'' then JBool True
                  else if lit = ''false'' then JBool False
                  else if lit = ''null'' then JNull
                  else if lit = ''undefined'' then JUndefined
                  else if lit \<noteq> [] \<and> StringToNumber lit \<noteq> NaN then JNum (StringToNumber lit)
                  else JStr lit)))"
proof -
  have r: "reachable_cache StringToNumber Map.empty" by (rule reachable_cache.initial)
  have ev: "fst (parseCondition StringToNumber Map.empty (''a = '' @ [CHR 0x27] @ ''7'' @ [CHR 0x27])) =
     Some \<lparr>field = ''a'', operator = ''='', val = JNum (Finite 7)\<rparr>"
    by code_simp
  show ?thesis
    using r ev parseCondition_value_coercion[OF r ev] by (intro conjI)
qed

subsection \<open>Evaluation\<close>

lemma includes_str_iff: "includes_str s t \<longleftrightarrow> sublist t s"
  by (simp add: includes_str_def indexOf_None_iff)

lemma startsWith_iff: "startsWith s t \<longleftrightarrow> prefix t s"
  by (auto simp: startsWith_def prefix_def) (metis append_eq_conv_conj)

lemma endsWith_iff: "endsWith s t \<longleftrightarrow> suffix t s"
proof
  assume "endsWith s t"
  then have "s = take (length s - length t) s @ t"
    by (metis append_take_drop_id endsWith_def)
  then show "suffix t s" by (metis suffixI)
next
  assume "suffix t s"
  then obtain zs where "s = zs @ t" by (auto simp: suffix_def)
  then show "endsWith s t" by (simp add: endsWith_def)
qed

lemma number_test:
  "(typeof h a = TNumber \<and> typeof h b = TNumber \<and> P (the_number a) (the_number b)) \<longleftrightarrow>
   (\<exists>x y. a = JNum x \<and> b = JNum y \<and> P x y)"
  by (cases a; cases b) auto

lemma string_test:
  "(typeof h a = TString \<and> typeof h b = TString \<and> P (the_string a) (the_string b)) \<longleftrightarrow>
   (\<exists>s t. a = JStr s \<and> b = JStr t \<and> P s t)"
  by (cases a; cases b) auto

text \<open>
  Claim C6. \<open>evaluateCondition\<close> is a function of the store, the record and the
  condition into the booleans: it has no error result and returns no store, as the
  source has no statement that raises or writes. For every store, record and condition:
  with an ordering operator the result is true exactly when the resolved field value
  and the condition value are both numbers and the order holds between them (an order
  with \<open>NaN\<close> never holds); with \<open>contains\<close>, \<open>startsWith\<close> or \<open>endsWith\<close> it is true exactly when
  both are strings and the condition value is a substring, a prefix or a suffix of the
  field value.
\<close>

theorem evaluateCondition_typed_operators:
  "(operator cond = ''>'' \<longrightarrow>
      evaluateCondition h item cond =
        (\<exists>x y. getNestedValue h item (field cond) = JNum x \<and> val cond = JNum y \<and> num_less y x)) \<and>
   (operator cond = ''<'' \<longrightarrow>
      evaluateCondition h item cond =
        (\<exists>x y. getNestedValue h item (field cond) = JNum x \<and> val cond = JNum y \<and> num_less x y)) \<and>
   (operator cond = ''>='' \<longrightarrow>
      evaluateCondition h item cond =
        (\<exists>x y. getNestedValue h item (field cond) = JNum x \<and> val cond = JNum y \<and> num_less_eq y x)) \<and>
   (operator cond = ''<='' \<longrightarrow>
      evaluateCondition h item cond =
        (\<exists>x y. getNestedValue h item (field cond) = JNum x \<and> val cond = JNum y \<and> num_less_eq x y)) \<and>
   (operator cond = ''contains'' \<longrightarrow>
      evaluateCondition h item cond =
        (\<exists>s t. getNestedValue h item (field cond) = JStr s \<and> val cond = JStr t \<and> sublist t s)) \<and>
   (operator cond = ''startsWith'' \<longrightarrow>
      evaluateCondition h item cond =
        (\<exists>s t. getNestedValue h item (field cond) = JStr s \<and> val cond = JStr t \<and> prefix t s)) \<and>
   (operator cond = ''endsWith'' \<longrightarrow>
      evaluateCondition h item cond =
        (\<exists>s t. getNestedValue h item (field cond) = JStr s \<and> val cond = JStr t \<and> suffix t s)) \<and>
   (\<forall>x y. num_less x y = (x \<noteq> NaN \<and> y \<noteq> NaN \<and> x \<noteq> PosInfinity \<and> y \<noteq> NegInfinity \<and> x \<noteq> y \<and>
            (\<forall>a b. x = Finite a \<and> y = Finite b \<longrightarrow> a < b))) \<and>
   (\<forall>x y. num_less_eq x y = (num_less x y \<or> (x = y \<and> x \<noteq> NaN)))"
proof -
  let ?fv = "getNestedValue h item (field cond)"
  have gt: "operator cond = ''>'' \<Longrightarrow> evaluateCondition h item cond =
      (\<exists>x y. ?fv = JNum x \<and> val cond = JNum y \<and> num_less y x)"
    unfolding evaluateCondition_def Let_def
    using number_test[of h ?fv "val cond" "\<lambda>x y. num_less y x"] by simp
  have lt: "operator cond = ''<'' \<Longrightarrow> evaluateCondition h item cond =
      (\<exists>x y. ?fv = JNum x \<and> val cond = JNum y \<and> num_less x y)"
    unfolding evaluateCondition_def Let_def
    using number_test[of h ?fv "val cond" "\<lambda>x y. num_less x y"] by simp
  have ge: "operator cond = ''>='' \<Longrightarrow> evaluateCondition h item cond =
      (\<exists>x y. ?fv = JNum x \<and> val cond = JNum y \<and> num_less_eq y x)"
    unfolding evaluateCondition_def Let_def
    using number_test[of h ?fv "val cond" "\<lambda>x y. num_less_eq y x"] by simp
  have le: "operator cond = ''<='' \<Longrightarrow> evaluateCondition h item cond =
      (\<exists>x y. ?fv = JNum x \<and> val cond = JNum y \<and> num_less_eq x y)"
    unfolding evaluateCondition_def Let_def
    using number_test[of h ?fv "val cond" "\<lambda>x y. num_less_eq x y"] by simp
  have co: "operator cond = ''contains'' \<Longrightarrow> evaluateCondition h item cond =
      (\<exists>s t. ?fv = JStr s \<and> val cond = JStr t \<and> sublist t s)"
    unfolding evaluateCondition_def Let_def
    using string_test[of h ?fv "val cond" "\<lambda>s t. sublist t s"] by (simp add: includes_str_iff)
  have sw: "operator cond = ''startsWith'' \<Longrightarrow> evaluateCondition h item cond =
      (\<exists>s t. ?fv = JStr s \<and> val cond = JStr t \<and> prefix t s)"
    unfolding evaluateCondition_def Let_def
    using string_test[of h ?fv "val cond" "\<lambda>s t. prefix t s"] by (simp add: startsWith_iff)
  have ew: "operator cond = ''endsWith'' \<Longrightarrow> evaluateCondition h item cond =
      (\<exists>s t. ?fv = JStr s \<and> val cond = JStr t \<and> suffix t s)"
    unfolding evaluateCondition_def Let_def
    using string_test[of h ?fv "val cond" "\<lambda>s t. suffix t s"] by (simp add: endsWith_iff)
  have nl: "num_less x y = (x \<noteq> NaN \<and> y \<noteq> NaN \<and> x \<noteq> PosInfinity \<and> y \<noteq> NegInfinity \<and> x \<noteq> y \<and>
            (\<forall>a b. x = Finite a \<and> y = Finite b \<longrightarrow> a < b))" for x y
    by (cases x; cases y) auto
  have ne: "num_less_eq x y = (num_less x y \<or> (x = y \<and> x \<noteq> NaN))" for x y
    by (cases x; cases y) (auto simp: num_less_eq_def)
  from gt lt ge le co sw ew nl ne show ?thesis by blast
qed

theorem evaluateCondition_typed_operators_witness:
  "evaluateCondition (realm @ [JsObj PlainObject (Some 0) [(''age'', Data (JNum (Finite 18)))]]) 58
     \<lparr>field = ''age'', operator = ''>='', val = JNum (Finite 18)\<rparr> \<and>
   (\<exists>x y. getNestedValue (realm @ [JsObj PlainObject (Some 0) [(''age'', Data (JNum (Finite 18)))]]) 58 ''age'' = JNum x \<and>
      JNum (Finite 18) = JNum y \<and> num_less_eq y x) \<and>
   \<not> evaluateCondition (realm @ [JsObj PlainObject (Some 0) [(''age'', Data (JNum (Finite 17)))]]) 58
     \<lparr>field = ''age'', operator = ''>='', val = JNum (Finite 18)\<rparr> \<and>
   \<not> evaluateCondition (realm @ [JsObj PlainObject (Some 0) [(''age'', Data (JStr ''18''))]]) 58
     \<lparr>field = ''age'', operator = ''>='', val = JNum (Finite 18)\<rparr> \<and>
   \<not> (\<exists>x y. getNestedValue (realm @ [JsObj PlainObject (Some 0) [(''age'', Data (JStr ''18''))]]) 58 ''age'' = JNum x \<and>
      JNum (Finite 18) = JNum y \<and> num_less_eq y x) \<and>
   evaluateCondition (realm @ [JsObj PlainObject (Some 0) [(''name'', Data (JStr ''John''))]]) 58
     \<lparr>field = ''name'', operator = ''contains'', val = JStr ''oh''\<rparr> \<and>
   (\<exists>s t. getNestedValue (realm @ [JsObj PlainObject (Some 0) [(''name'', Data (JStr ''John''))]]) 58 ''name'' = JStr s \<and>
      JStr ''oh'' = JStr t \<and> sublist t s)"
proof -
  let ?c = "\<lparr>field = ''age'', operator = ''>='', val = JNum (Finite 18)\<rparr>"
  let ?d = "\<lparr>field = ''name'', operator = ''contains'', val = JStr ''oh''\<rparr>"
  have e1: "evaluateCondition (realm @ [JsObj PlainObject (Some 0) [(''age'', Data (JNum (Finite 18)))]]) 58 ?c"
    by code_simp
  have e2: "\<not> evaluateCondition (realm @ [JsObj PlainObject (Some 0) [(''age'', Data (JNum (Finite 17)))]]) 58 ?c"
    by code_simp
  have e3: "\<not> evaluateCondition (realm @ [JsObj PlainObject (Some 0) [(''age'', Data (JStr ''18''))]]) 58 ?c"
    by code_simp
  have e4: "evaluateCondition (realm @ [JsObj PlainObject (Some 0) [(''name'', Data (JStr ''John''))]]) 58 ?d"
    by code_simp
  have t1: "evaluateCondition (realm @ [JsObj PlainObject (Some 0) [(''age'', Data (JNum (Finite 18)))]]) 58 ?c =
      (\<exists>x y. getNestedValue (realm @ [JsObj PlainObject (Some 0) [(''age'', Data (JNum (Finite 18)))]]) 58 (field ?c) = JNum x \<and>
         val ?c = JNum y \<and> num_less_eq y x)"
    using evaluateCondition_typed_operators[of ?c "realm @ [JsObj PlainObject (Some 0) [(''age'', Data (JNum (Finite 18)))]]" 58]
    by simp
  have t3: "evaluateCondition (realm @ [JsObj PlainObject (Some 0) [(''age'', Data (JStr ''18''))]]) 58 ?c =
      (\<exists>x y. getNestedValue (realm @ [JsObj PlainObject (Some 0) [(''age'', Data (JStr ''18''))]]) 58 (field ?c) = JNum x \<and>
         val ?c = JNum y \<and> num_less_eq y x)"
    using evaluateCondition_typed_operators[of ?c "realm @ [JsObj PlainObject (Some 0) [(''age'', Data (JStr ''18''))]]" 58]
    by simp
  have t4: "evaluateCondition (realm @ [JsObj PlainObject (Some 0) [(''name'', Data (JStr ''John''))]]) 58 ?d =
      (\<exists>s t. getNestedValue (realm @ [JsObj PlainObject (Some 0) [(''name'', Data (JStr ''John''))]]) 58 (field ?d) = JStr s \<and>
         val ?d = JStr t \<and> sublist t s)"
    using evaluateCondition_typed_operators[of ?d "realm @ [JsObj PlainObject (Some 0) [(''name'', Data (JStr ''John''))]]" 58]
    by simp
  from e1 e2 e3 e4 t1 t3 t4 show ?thesis by simp
qed





lemma has_prop_get_prop_undefined: "\<not> has_prop h a key \<Longrightarrow> get_prop h a key = JUndefined"
  by (simp add: has_prop_def get_prop_def)

lemma path_unresolved_undefined:
  "path_unresolved h current keys \<Longrightarrow> getNestedValue_loop h current keys = JUndefined"
proof (induction keys arbitrary: current)
  case Nil
  then show ?case by simp
next
  case (Cons key keys)
  show ?case
  proof (cases current)
    case (JRef a)
    show ?thesis
    proof (cases "typeof h current = TObject")
      case obj: True
      show ?thesis
      proof (cases "has_prop h a key")
        case True
        with Cons.prems JRef obj have "path_unresolved h (get_prop h a key) keys" by simp
        from Cons.IH[OF this] JRef show ?thesis by simp
      next
        case False
        then have "get_prop h a key = JUndefined" by (rule has_prop_get_prop_undefined)
        with JRef show ?thesis by (cases keys) simp_all
      qed
    next
      case False
      then show ?thesis by simp
    qed
  qed simp_all
qed

lemma field_unresolved_undefined:
  assumes "field_unresolved h R F"
  shows "getNestedValue h R F = JUndefined"
proof (cases "includes_str F ''.''")
  case True
  with assms have "path_unresolved h (JRef R) (split_on CHR ''.'' F)"
    by (simp add: field_unresolved_def)
  from path_unresolved_undefined[OF this] True show ?thesis
    by (simp add: getNestedValue_def)
next
  case False
  with assms have "\<not> has_prop h R F" by (simp add: field_unresolved_def)
  from has_prop_get_prop_undefined[OF this] False show ?thesis
    by (simp add: getNestedValue_def)
qed

lemma strict_equals_undefined: "strict_equals JUndefined v \<longleftrightarrow> v = JUndefined"
  by (cases v) auto

text \<open>
  Claim C5, as the code has it. For every store, record \<open>R\<close>, field path \<open>F\<close> and value
  \<open>v\<close>: when \<open>F\<close> does not resolve from \<open>R\<close>, the condition \<open>F = v\<close> holds of \<open>R\<close> exactly
  when \<open>v\<close> is \<^verbatim>\<open>undefined\<close>. A path without a dot does not resolve when it names no
  property of \<open>R\<close>, its own or one of its prototype chain; a dotted path does not resolve
  when a segment names no such property of the object reached, or the walk reaches
  \<^verbatim>\<open>undefined\<close>, \<^verbatim>\<open>null\<close>, a boolean, a number, a string or a function before a segment.
  An array is an object: the walk goes on through it. A name that the prototype chain
  answers, \<^verbatim>\<open>constructor\<close> on a plain record, resolves, to a function, and the
  condition \<^verbatim>\<open>constructor = undefined\<close> is false of the record.
\<close>

theorem evaluateCondition_unresolved_field:
  assumes "field_unresolved h R F"
  shows "evaluateCondition h R \<lparr>field = F, operator = ''='', val = v\<rparr> \<longleftrightarrow> v = JUndefined"
proof -
  have "getNestedValue h R F = JUndefined"
    by (rule field_unresolved_undefined[OF assms])
  then show ?thesis
    by (auto simp: evaluateCondition_def strict_equals_undefined)
qed

theorem evaluateCondition_unresolved_field_witness:
  "field_unresolved (realm @ [JsObj PlainObject (Some 0) [(''name'', Data (JStr ''John''))]]) 58
     ''profile.active'' \<and>
   evaluateCondition (realm @ [JsObj PlainObject (Some 0) [(''name'', Data (JStr ''John''))]]) 58
     \<lparr>field = ''profile.active'', operator = ''='', val = JUndefined\<rparr> \<and>
   \<not> evaluateCondition (realm @ [JsObj PlainObject (Some 0) [(''name'', Data (JStr ''John''))]]) 58
     \<lparr>field = ''profile.active'', operator = ''='', val = JBool True\<rparr> \<and>
   field_unresolved (realm @ [JsObj PlainObject (Some 0) [(''name'', Data (JStr ''John''))]]) 58
     ''age'' \<and>
   evaluateCondition (realm @ [JsObj PlainObject (Some 0) [(''name'', Data (JStr ''John''))]]) 58
     \<lparr>field = ''age'', operator = ''='', val = JUndefined\<rparr> \<and>
   field_unresolved (realm @ [JsObj PlainObject (Some 0) [(''name'', Data (JStr ''John''))]]) 58
     ''name.first'' \<and>
   field_unresolved (realm @ [JsObj PlainObject (Some 0) [(''name'', Data (JStr ''John''))]]) 58
     ''constructor.prototype'' \<and>
   \<not> field_unresolved (realm @ [JsObj PlainObject (Some 0) [(''name'', Data (JStr ''John''))]]) 58
     ''constructor'' \<and>
   \<not> evaluateCondition (realm @ [JsObj PlainObject (Some 0) [(''name'', Data (JStr ''John''))]]) 58
     \<lparr>field = ''constructor'', operator = ''='', val = JUndefined\<rparr> \<and>
   \<not> field_unresolved (realm @ [JsObj PlainObject (Some 0) [(''name'', Data (JStr ''John''))]]) 58
     ''toString''"
proof -
  let ?h = "realm @ [JsObj PlainObject (Some 0) [(''name'', Data (JStr ''John''))]]"
  have p: "field_unresolved ?h 58 ''profile.active''"
    by code_simp
  have q: "field_unresolved ?h 58 ''age''"
    by code_simp
  have r: "field_unresolved ?h 58 ''name.first''"
    by code_simp
  have s: "field_unresolved ?h 58 ''constructor.prototype''"
    by code_simp
  have t: "\<not> field_unresolved ?h 58 ''constructor''"
    by code_simp
  have u: "\<not> evaluateCondition ?h 58 \<lparr>field = ''constructor'', operator = ''='', val = JUndefined\<rparr>"
    by code_simp
  have w: "\<not> field_unresolved ?h 58 ''toString''"
    by code_simp
  from evaluateCondition_unresolved_field[OF p, of JUndefined]
    evaluateCondition_unresolved_field[OF p, of "JBool True"]
    evaluateCondition_unresolved_field[OF q, of JUndefined] p q r s t u w
  show ?thesis by simp
qed

text \<open>
  Claim C5 as stated takes every value that is not a map for the end of the walk. The
  path \<open>a.0\<close> passes through the array \<open>[5]\<close>, and the condition \<open>a.0 = 5\<close> holds of the
  record, with a value that is not \<^verbatim>\<open>undefined\<close>.
\<close>

theorem evaluateCondition_walks_through_array:
  "isArray ((realm @ [JsObj PlainObject (Some 0) [(''a'', Data (JRef 59))],
                      JsObj (ArrayObject 1) (Some 2) [(''0'', Data (JNum (Finite 5)))]]) ! 59) \<and>
   get_prop (realm @ [JsObj PlainObject (Some 0) [(''a'', Data (JRef 59))],
                      JsObj (ArrayObject 1) (Some 2) [(''0'', Data (JNum (Finite 5)))]]) 58 ''a'' = JRef 59 \<and>
   evaluateCondition (realm @ [JsObj PlainObject (Some 0) [(''a'', Data (JRef 59))],
                               JsObj (ArrayObject 1) (Some 2) [(''0'', Data (JNum (Finite 5)))]]) 58
     \<lparr>field = ''a.0'', operator = ''='', val = JNum (Finite 5)\<rparr> \<and>
   JNum (Finite 5) \<noteq> JUndefined"
  by code_simp

subsection \<open>The query builder\<close>

lemma splice1_append: "splice1 (length ys) (ys @ y # zs) = ys @ zs"
  by (simp add: splice1_def)

lemma delete_loop_append:
  "delete_loop S (ys @ zs) (length ys) = filter (\<lambda>x. x \<notin> S) ys @ zs"
proof (induction ys arbitrary: zs rule: rev_induct)
  case Nil
  then show ?case by simp
next
  case (snoc y ys)
  have nth: "(ys @ y # zs) ! length ys = y" by simp
  show ?case
  proof (cases "y \<in> S")
    case True
    then have "delete_loop S ((ys @ [y]) @ zs) (length (ys @ [y])) =
        delete_loop S (ys @ zs) (length ys)"
      using nth by (simp add: splice1_append)
    with True snoc.IH[of zs] show ?thesis by simp
  next
    case False
    then have "delete_loop S ((ys @ [y]) @ zs) (length (ys @ [y])) =
        delete_loop S (ys @ y # zs) (length ys)"
      using nth by simp
    with False snoc.IH[of "y # zs"] show ?thesis by simp
  qed
qed

lemma delete_loop_filter:
  "delete_loop S xs (length xs) = filter (\<lambda>x. x \<notin> S) xs"
  using delete_loop_append[of S xs "[]"] by simp

text \<open>
  Claim C2. For every builder, whatever its backing array and its working copy:
  \<^verbatim>\<open>delete\<close> returns the size of the working copy; the backing array becomes the list of
  its elements that are not (by reference) in the working copy, in their order; the
  working copy becomes empty; and a parent store receives that backing array.
\<close>

theorem QueryBuilder_delete_removes_working_copy:
  "fst (QueryBuilder_delete qb) = length (workingData qb) \<and>
   originalData (snd (QueryBuilder_delete qb)) =
     filter (\<lambda>x. x \<notin> set (workingData qb)) (originalData qb) \<and>
   workingData (snd (QueryBuilder_delete qb)) = [] \<and>
   parent (snd (QueryBuilder_delete qb)) =
     map_option (\<lambda>p. p\<lparr>data := originalData (snd (QueryBuilder_delete qb))\<rparr>) (parent qb)"
  by (simp add: QueryBuilder_delete_def Let_def delete_loop_filter syncFromQueryBuilder_def)

theorem QueryBuilder_delete_removes_working_copy_witness:
  "fst (QueryBuilder_delete
     \<lparr>parent = None, conditions = [], originalData = [0, 1, 2, 1, 3], workingData = [1, 3]\<rparr>) = 2 \<and>
   originalData (snd (QueryBuilder_delete
     \<lparr>parent = None, conditions = [], originalData = [0, 1, 2, 1, 3], workingData = [1, 3]\<rparr>)) = [0, 2] \<and>
   workingData (snd (QueryBuilder_delete
     \<lparr>parent = None, conditions = [], originalData = [0, 1, 2, 1, 3], workingData = [1, 3]\<rparr>)) = []"
  using QueryBuilder_delete_removes_working_copy
    [of "\<lparr>parent = None, conditions = [], originalData = [0, 1, 2, 1, 3], workingData = [1, 3]\<rparr>"]
  by simp

lemma filter_member_imp:
  "filter (\<lambda>x. x \<in> set xs \<longrightarrow> \<not> P x) xs = filter (\<lambda>x. \<not> P x) xs"
  by (rule filter_cong) auto

lemma length_filter_compl:
  "length xs - length (filter (\<lambda>x. \<not> P x) xs) = length (filter P xs)"
  using sum_length_filter_compl[of P xs] by simp

text \<open>
  Claim C3. For every store, record array, map of parses and condition string that
  parses: \<^verbatim>\<open>deleteWhere(condition)\<close> on the store, and \<^verbatim>\<open>where(condition).delete()\<close> on a
  builder over the store's array, return the same count and leave the same record
  array (the same elements in the same order), the same store and the same map of
  parses.
\<close>

theorem deleteWhere_equals_where_delete:
  assumes "fst (parseCondition toNumber c s) \<noteq> None"
  shows "(case deleteWhere toNumber h c st (StringCondition s) of
            (n, st', c') \<Rightarrow>
              (case Jsonary_where toNumber h c st (StringCondition s) of
                 (qb, c'') \<Rightarrow>
                   n = fst (QueryBuilder_delete qb) \<and>
                   data st' = originalData (snd (QueryBuilder_delete qb)) \<and>
                   Some st' = parent (snd (QueryBuilder_delete qb)) \<and>
                   c' = c''))"
proof -
  from assms obtain parsed c1 where p: "parseCondition toNumber c s = (Some parsed, c1)"
    by (cases "parseCondition toNumber c s") auto
  show ?thesis
    by (simp add: deleteWhere_def Jsonary_where_def QueryBuilder_where_def QueryBuilder_new_def
        p Let_def QueryBuilder_delete_def delete_loop_filter filter_member_imp
        length_filter_compl syncFromQueryBuilder_def)
qed

theorem deleteWhere_equals_where_delete_witness:
  "fst (parseCondition StringToNumber Map.empty ''age < 18'') \<noteq> None \<and>
   fst (deleteWhere StringToNumber
     (realm @ [JsObj PlainObject (Some 0) [(''age'', Data (JNum (Finite 10)))],
               JsObj PlainObject (Some 0) [(''age'', Data (JNum (Finite 20)))],
               JsObj PlainObject (Some 0) [(''age'', Data (JNum (Finite 5)))]])
     Map.empty \<lparr>data = [58, 59, 60]\<rparr> (StringCondition ''age < 18'')) = 2 \<and>
   data (fst (snd (deleteWhere StringToNumber
     (realm @ [JsObj PlainObject (Some 0) [(''age'', Data (JNum (Finite 10)))],
               JsObj PlainObject (Some 0) [(''age'', Data (JNum (Finite 20)))],
               JsObj PlainObject (Some 0) [(''age'', Data (JNum (Finite 5)))]])
     Map.empty \<lparr>data = [58, 59, 60]\<rparr> (StringCondition ''age < 18'')))) = [59] \<and>
   fst (QueryBuilder_delete (fst (Jsonary_where StringToNumber
     (realm @ [JsObj PlainObject (Some 0) [(''age'', Data (JNum (Finite 10)))],
               JsObj PlainObject (Some 0) [(''age'', Data (JNum (Finite 20)))],
               JsObj PlainObject (Some 0) [(''age'', Data (JNum (Finite 5)))]])
     Map.empty \<lparr>data = [58, 59, 60]\<rparr> (StringCondition ''age < 18'')))) = 2 \<and>
   originalData (snd (QueryBuilder_delete (fst (Jsonary_where StringToNumber
     (realm @ [JsObj PlainObject (Some 0) [(''age'', Data (JNum (Finite 10)))],
               JsObj PlainObject (Some 0) [(''age'', Data (JNum (Finite 20)))],
               JsObj PlainObject (Some 0) [(''age'', Data (JNum (Finite 5)))]])
     Map.empty \<lparr>data = [58, 59, 60]\<rparr> (StringCondition ''age < 18''))))) = [59]"
proof -
  let ?h = "realm @ [JsObj PlainObject (Some 0) [(''age'', Data (JNum (Finite 10)))],
               JsObj PlainObject (Some 0) [(''age'', Data (JNum (Finite 20)))],
               JsObj PlainObject (Some 0) [(''age'', Data (JNum (Finite 5)))]]"
  let ?st = "\<lparr>data = [58, 59, 60]\<rparr>"
  have p: "fst (parseCondition StringToNumber Map.empty ''age < 18'') \<noteq> None"
    by code_simp
  have d1: "fst (deleteWhere StringToNumber ?h Map.empty ?st (StringCondition ''age < 18'')) = 2"
    by code_simp
  have d2: "data (fst (snd (deleteWhere StringToNumber ?h Map.empty ?st (StringCondition ''age < 18'')))) = [59]"
    by code_simp
  from deleteWhere_equals_where_delete[OF p, of ?h ?st] p d1 d2
  show ?thesis by (simp add: case_prod_unfold)
qed

lemma parseCondition_no_operator:
  assumes "reachable_cache toNumber c" and "\<forall>op \<in> set queryOperators. \<not> sublist op s"
  shows "fst (parseCondition toNumber c s) = None"
proof -
  have "set getOperatorsSorted = set queryOperators"
    by (simp add: getOperatorsSorted_def)
  with assms(2) have "parseCondition_loop toNumber s getOperatorsSorted = None"
    by (simp add: parseCondition_loop_None_iff)
  then show ?thesis
    by (simp add: parseCondition_fst[OF assms(1)])
qed

lemma updateWhere_loop_no_operator:
  assumes "\<forall>op \<in> set queryOperators. \<not> sublist op s"
  shows "reachable_cache toNumber c \<Longrightarrow>
     \<exists>c'. updateWhere_loop toNumber toLength (StringCondition s) patch items h c n = Inr (n, h, c')"
proof (induction items arbitrary: c)
  case Nil
  then show ?case by simp
next
  case (Cons item items)
  let ?c1 = "snd (parseCondition toNumber c s)"
  have su: "shouldUpdate toNumber h c item (StringCondition s) = (False, ?c1)"
    using parseCondition_no_operator[OF Cons.prems assms]
    by (cases "parseCondition toNumber c s") (simp add: shouldUpdate_def)
  have "reachable_cache toNumber ?c1" by (rule reachable_cache.parsed[OF Cons.prems])
  from Cons.IH[OF this] su show ?case by simp
qed

text \<open>
  Claim C8. From every reachable map of parses and for every condition string in which
  no operator symbol occurs: \<^verbatim>\<open>where\<close> returns the builder as it was (its working copy
  unchanged); \<^verbatim>\<open>deleteWhere\<close> returns \<open>0\<close> and leaves the store as it was; \<^verbatim>\<open>updateWhere\<close>
  returns \<open>0\<close> with no fault and leaves the objects and the store as they were.
\<close>

theorem no_operator_is_no_op:
  assumes "reachable_cache toNumber c" and "\<forall>op \<in> set queryOperators. \<not> sublist op s"
  shows "fst (QueryBuilder_where toNumber h c qb (StringCondition s)) = qb \<and>
         fst (deleteWhere toNumber h c st (StringCondition s)) = 0 \<and>
         fst (snd (deleteWhere toNumber h c st (StringCondition s))) = st \<and>
         (\<exists>c'. updateWhere toNumber toLength h c st (StringCondition s) patch = Inr (0, h, st, c'))"
proof -
  note p = parseCondition_no_operator[OF assms]
  have w: "fst (QueryBuilder_where toNumber h c qb (StringCondition s)) = qb"
    using p by (cases "parseCondition toNumber c s") (simp add: QueryBuilder_where_def)
  have d: "fst (deleteWhere toNumber h c st (StringCondition s)) = 0 \<and>
         fst (snd (deleteWhere toNumber h c st (StringCondition s))) = st"
    using p by (cases "parseCondition toNumber c s") (simp add: deleteWhere_def Let_def)
  from updateWhere_loop_no_operator[OF assms(2) assms(1), of toLength patch "data st" h 0]
  have u: "\<exists>c'. updateWhere toNumber toLength h c st (StringCondition s) patch = Inr (0, h, st, c')"
    by (auto simp: updateWhere_def)
  from w d u show ?thesis by simp
qed

theorem no_operator_is_no_op_witness:
  "fst (QueryBuilder_where StringToNumber (realm @ [JsObj PlainObject (Some 0) [(''age'', Data (JNum (Finite 10)))]]) Map.empty
     \<lparr>parent = None, conditions = [], originalData = [58], workingData = [58]\<rparr>
     (StringCondition ''age is 10'')) =
     \<lparr>parent = None, conditions = [], originalData = [58], workingData = [58]\<rparr> \<and>
   fst (deleteWhere StringToNumber (realm @ [JsObj PlainObject (Some 0) [(''age'', Data (JNum (Finite 10)))]]) Map.empty
     \<lparr>data = [58]\<rparr> (StringCondition ''age is 10'')) = 0 \<and>
   fst (snd (deleteWhere StringToNumber (realm @ [JsObj PlainObject (Some 0) [(''age'', Data (JNum (Finite 10)))]]) Map.empty
     \<lparr>data = [58]\<rparr> (StringCondition ''age is 10''))) = \<lparr>data = [58]\<rparr> \<and>
   (\<exists>c'. updateWhere StringToNumber ToArrayLength (realm @ [JsObj PlainObject (Some 0) [(''age'', Data (JNum (Finite 10)))]]) Map.empty
     \<lparr>data = [58]\<rparr> (StringCondition ''age is 10'') [(''age'', JNum (Finite 11))] =
       Inr (0, realm @ [JsObj PlainObject (Some 0) [(''age'', Data (JNum (Finite 10)))]], \<lparr>data = [58]\<rparr>, c'))"
proof -
  have r: "reachable_cache StringToNumber Map.empty" by (rule reachable_cache.initial)
  have n: "\<forall>op \<in> set queryOperators. \<not> sublist op ''age is 10''"
    by code_simp
  show ?thesis
    by (rule no_operator_is_no_op[OF r n])
qed

lemma QueryBuilder_where_subseq:
  "subseq (workingData (fst (QueryBuilder_where toNumber h c qb arg))) (workingData qb)"
  by (cases arg) (auto simp: QueryBuilder_where_def split: prod.splits option.splits)

lemma where_chain_subseq:
  "subseq (workingData (fst (where_chain toNumber h c qb args))) (workingData qb)"
proof (induction args arbitrary: c qb)
  case Nil
  then show ?case by simp
next
  case (Cons arg args)
  obtain qb' c' where s: "QueryBuilder_where toNumber h c qb arg = (qb', c')"
    by (cases "QueryBuilder_where toNumber h c qb arg")
  have "subseq (workingData qb') (workingData qb)"
    using QueryBuilder_where_subseq[of toNumber h c qb arg] s by simp
  with Cons.IH[of c' qb'] s show ?case
    by (auto intro: subseq_order.trans)
qed

text \<open>
  Claim C9. For every builder, every argument of \<^verbatim>\<open>where\<close> (a condition string or a
  predicate) and every chain of such calls: the working copy after a call is a
  subsequence of the working copy before it, and so is the working copy after the whole
  chain; its size never grows.
\<close>

theorem where_only_narrows:
  "subseq (workingData (fst (QueryBuilder_where toNumber h c qb arg))) (workingData qb) \<and>
   length (workingData (fst (QueryBuilder_where toNumber h c qb arg))) \<le> length (workingData qb) \<and>
   subseq (workingData (fst (where_chain toNumber h c qb args))) (workingData qb) \<and>
   length (workingData (fst (where_chain toNumber h c qb args))) \<le> length (workingData qb)"
  using QueryBuilder_where_subseq[of toNumber h c qb arg] where_chain_subseq[of toNumber h c qb args]
  by (auto dest: list_emb_length)

theorem where_only_narrows_witness:
  "workingData (fst (where_chain StringToNumber
     (realm @
       [JsObj PlainObject (Some 0) [(''name'', Data (JStr ''John'')), (''age'', Data (JNum (Finite 30)))],
        JsObj PlainObject (Some 0) [(''name'', Data (JStr ''Bob'')), (''age'', Data (JNum (Finite 35)))],
        JsObj PlainObject (Some 0) [(''name'', Data (JStr ''Jane'')), (''age'', Data (JNum (Finite 20)))]])
     Map.empty (QueryBuilder_new [58, 59, 60] None)
     [StringCondition ''age > 25'',
      StringCondition (''name contains '' @ [CHR 0x22] @ ''J'' @ [CHR 0x22]),
      FunctionCondition (\<lambda>h item. True)])) = [58] \<and>
   subseq [58] (workingData (QueryBuilder_new [58, 59, 60] None))"
proof -
  let ?h = "realm @
       [JsObj PlainObject (Some 0) [(''name'', Data (JStr ''John'')), (''age'', Data (JNum (Finite 30)))],
        JsObj PlainObject (Some 0) [(''name'', Data (JStr ''Bob'')), (''age'', Data (JNum (Finite 35)))],
        JsObj PlainObject (Some 0) [(''name'', Data (JStr ''Jane'')), (''age'', Data (JNum (Finite 20)))]]"
  let ?args = "[StringCondition ''age > 25'',
      StringCondition (''name contains '' @ [CHR 0x22] @ ''J'' @ [CHR 0x22]),
      FunctionCondition (\<lambda>h item. True)]"
  have e: "workingData (fst (where_chain StringToNumber ?h Map.empty (QueryBuilder_new [58, 59, 60] None) ?args)) = [58]"
    by code_simp
  from where_only_narrows[of StringToNumber ?h Map.empty "QueryBuilder_new [58, 59, 60] None" _ ?args] e
  show ?thesis by simp
qed

subsection \<open>Setting a nested value\<close>






















end
